theory Spec2Isabelle
  imports Complex_Main
begin

section \<open>Python values that come out of JSON\<close>

text \<open>
  Everything the handlers of \<^verbatim>\<open>FlaskAPI.py\<close> touch is either a query-string value (a
  Python \<^verbatim>\<open>str\<close>) or a value produced by a JSON parser (\<^verbatim>\<open>resp.json()\<close>,
  \<^verbatim>\<open>request.get_json()\<close>). A dict is an association list read with \<open>map_of\<close>
  (the first binding of a key is the dict's entry). Strings are byte strings (UTF-8).
\<close>

datatype json =
    JNull
  | JBool bool
  | JInt int
  | JFloat real
  | JStr string
  | JArr "json list"
  | JObj "(string \<times> json) list"

text \<open>An exception is its class name and its \<^verbatim>\<open>str(e)\<close>.\<close>

datatype py_exn = PyExn string string

fun exn_str :: "py_exn \<Rightarrow> string" where
  "exn_str (PyExn cls msg) = msg"

fun py_type_name :: "json \<Rightarrow> string" where
  "py_type_name JNull = ''NoneType''"
| "py_type_name (JBool b) = ''bool''"
| "py_type_name (JInt n) = ''int''"
| "py_type_name (JFloat r) = ''float''"
| "py_type_name (JStr s) = ''str''"
| "py_type_name (JArr xs) = ''list''"
| "py_type_name (JObj kvs) = ''dict''"

definition quote :: string where
  "quote = [CHR 0x27]"

definition attribute_error :: "json \<Rightarrow> string \<Rightarrow> py_exn" where
  "attribute_error v attr =
     PyExn ''AttributeError''
       (quote @ py_type_name v @ quote @ '' object has no attribute '' @ quote @ attr @ quote)"

definition key_error :: "string \<Rightarrow> py_exn" where
  "key_error k = PyExn ''KeyError'' (quote @ k @ quote)"

definition not_iterable :: "json \<Rightarrow> py_exn" where
  "not_iterable v =
     PyExn ''TypeError'' (quote @ py_type_name v @ quote @ '' object is not iterable'')"

definition unhashable :: "json \<Rightarrow> py_exn" where
  "unhashable v = PyExn ''TypeError'' (''unhashable type: '' @ quote @ py_type_name v @ quote)"

text \<open>Truth value of a Python object (\<^verbatim>\<open>if x\<close>, \<^verbatim>\<open>not x\<close>, \<^verbatim>\<open>x or y\<close>).\<close>

fun py_truthy :: "json \<Rightarrow> bool" where
  "py_truthy JNull = False"
| "py_truthy (JBool b) = b"
| "py_truthy (JInt n) = (n \<noteq> 0)"
| "py_truthy (JFloat r) = (r \<noteq> 0)"
| "py_truthy (JStr s) = (s \<noteq> [])"
| "py_truthy (JArr xs) = (xs \<noteq> [])"
| "py_truthy (JObj kvs) = (kvs \<noteq> [])"

text \<open>\<^verbatim>\<open>d.get(k, dflt)\<close> on a dict given by its items.\<close>

definition items_get :: "(string \<times> json) list \<Rightarrow> string \<Rightarrow> json \<Rightarrow> json" where
  "items_get kvs k dflt = (case map_of kvs k of Some v \<Rightarrow> v | None \<Rightarrow> dflt)"

text \<open>\<^verbatim>\<open>v.get(k, dflt)\<close> on any value: only a dict has the method.\<close>

definition dict_get :: "json \<Rightarrow> string \<Rightarrow> json \<Rightarrow> py_exn + json" where
  "dict_get v k dflt =
     (case v of
        JObj kvs \<Rightarrow> Inr (items_get kvs k dflt)
      | _ \<Rightarrow> Inl (attribute_error v ''get''))"

text \<open>\<^verbatim>\<open>for x in v\<close>: the elements a loop over \<open>v\<close> visits.\<close>

fun py_iter :: "json \<Rightarrow> py_exn + json list" where
  "py_iter (JArr xs) = Inr xs"
| "py_iter (JObj kvs) = Inr (map JStr (remdups (map fst kvs)))"
| "py_iter (JStr s) = Inr (map (\<lambda>c. JStr [c]) s)"
| "py_iter v = Inl (not_iterable v)"

text \<open>Decimal rendering of an \<^verbatim>\<open>int\<close>, as \<^verbatim>\<open>str(n)\<close>.\<close>

fun str_of_nat :: "nat \<Rightarrow> string" where
  "str_of_nat n =
     (if n < 10 then [''0123456789'' ! n]
      else str_of_nat (n div 10) @ [''0123456789'' ! (n mod 10)])"

definition str_of_int :: "int \<Rightarrow> string" where
  "str_of_int i = (if i < 0 then ''-'' @ str_of_nat (nat (- i)) else str_of_nat (nat i))"

section \<open>The outside world\<close>

text \<open>
  The program calls three external services and a few library routines whose results the
  source does not determine. They are the fields of \<open>world\<close>; the first argument of each
  service is the number of effects performed so far, so that two calls with the same
  arguments may answer differently.
  \<^item> \<open>http_get_json\<close>: \<^verbatim>\<open>requests.get(url, timeout=10)\<close> followed by \<^verbatim>\<open>.json()\<close>: the
    parsed body, or the exception either step raises (timeout, connection error,
    malformed JSON).
  \<^item> \<open>chat_completion\<close>: \<^verbatim>\<open>openai.ChatCompletion.create(...)\<close> followed by
    \<^verbatim>\<open>response.choices[0].message["content"]\<close>: the content string, or the exception raised
    by the call or by reading a malformed response.
  \<^item> \<open>gtts_init\<close>, \<open>gtts_save\<close>: the exception, if any, raised by \<^verbatim>\<open>gTTS(text, lang=...)\<close>
    and by \<^verbatim>\<open>tts.save(path)\<close>.
  \<^item> \<open>tempfile_new\<close>: the name of the file \<^verbatim>\<open>NamedTemporaryFile(delete=False, suffix=".mp3")\<close>
    creates, or the exception it raises.
  \<^item> \<open>os_remove_error\<close>: the exception \<^verbatim>\<open>os.remove\<close> raises on a file that exists.
  \<^item> \<open>int_of_str\<close>: \<^verbatim>\<open>int(s)\<close> on a string; \<open>str_of_value\<close>: \<^verbatim>\<open>str(v)\<close> on a float, list or
    dict; \<open>str_strip\<close>: \<^verbatim>\<open>s.strip()\<close>; \<open>uuid4\<close>: \<^verbatim>\<open>str(uuid.uuid4())\<close>.
  \<^item> \<open>env_news_api_key\<close>: \<^verbatim>\<open>os.getenv("NEWS_API_KEY")\<close>.

  The \<^verbatim>\<open>print\<close> calls of the \<^verbatim>\<open>except\<close> branches write to standard output only and are
  left out. An exception is a value: a function with a \<^verbatim>\<open>try\<close> is given as its body, which
  returns \<open>Inl e\<close> where the source raises \<open>e\<close>, and the function proper, which maps \<open>Inl\<close>
  as the \<^verbatim>\<open>except\<close> branch does.
\<close>

record world =
  env_news_api_key :: "string option"
  http_get_json :: "nat \<Rightarrow> string \<Rightarrow> py_exn + json"
  chat_completion :: "nat \<Rightarrow> string \<Rightarrow> py_exn + string"
  gtts_init :: "nat \<Rightarrow> json \<Rightarrow> string \<Rightarrow> py_exn option"
  tempfile_new :: "nat \<Rightarrow> py_exn + string"
  gtts_save :: "nat \<Rightarrow> string \<Rightarrow> py_exn option"
  os_remove_error :: "nat \<Rightarrow> string \<Rightarrow> py_exn option"
  uuid4 :: "nat \<Rightarrow> string"
  int_of_str :: "string \<Rightarrow> py_exn + int"
  str_of_value :: "json \<Rightarrow> string"
  str_strip :: "string \<Rightarrow> string"

text \<open>What a run does to the outside: the calls it makes, in order, and the files on disk.\<close>

datatype event =
    HttpGet string
  | ChatCreate string
  | GttsInit json string
  | TempFile
  | GttsSave string
  | OsRemove string

record sys =
  files :: "string set"
  trace :: "event list"

definition emit :: "event \<Rightarrow> sys \<Rightarrow> sys" where
  "emit ev s = s\<lparr>trace := trace s @ [ev]\<rparr>"

definition now :: "sys \<Rightarrow> nat" where
  "now s = length (trace s)"

text \<open>\<^verbatim>\<open>str(v)\<close>, as an f-string interpolates a value.\<close>

definition py_str :: "world \<Rightarrow> json \<Rightarrow> string" where
  "py_str w v =
     (case v of
        JStr s \<Rightarrow> s
      | JNull \<Rightarrow> ''None''
      | JBool b \<Rightarrow> (if b then ''True'' else ''False'')
      | JInt n \<Rightarrow> str_of_int n
      | _ \<Rightarrow> str_of_value w v)"

section \<open>Module-level constants\<close>

definition NEWS_API_KEY :: "world \<Rightarrow> string" where
  "NEWS_API_KEY w =
     (case env_news_api_key w of
        Some k \<Rightarrow> (if k \<noteq> [] then k else ''809a78470dbf4902bcbba81cae58b192'')
      | None \<Rightarrow> ''809a78470dbf4902bcbba81cae58b192'')"

definition LANG_MAP :: "(string \<times> string) list" where
  "LANG_MAP = [(''English'', ''en''), (''Tamil'', ''ta''), (''Hindi'', ''hi'')]"

text \<open>\<^verbatim>\<open>LANG_MAP.get(language, "en")\<close>: the key is hashed first, and a list or dict is not hashable.\<close>

definition lang_map_get :: "json \<Rightarrow> py_exn + string" where
  "lang_map_get language =
     (case language of
        JStr s \<Rightarrow> Inr (case map_of LANG_MAP s of Some c \<Rightarrow> c | None \<Rightarrow> ''en'')
      | JArr xs \<Rightarrow> Inl (unhashable language)
      | JObj kvs \<Rightarrow> Inl (unhashable language)
      | _ \<Rightarrow> Inr ''en'')"

section \<open>fetch\_news\<close>

definition top_headlines_url :: "world \<Rightarrow> json \<Rightarrow> json \<Rightarrow> json \<Rightarrow> string" where
  "top_headlines_url w category region limit =
     ''https://newsapi.org/v2/top-headlines?'' @
     ''country='' @ py_str w region @ ''&category='' @ py_str w category @
     ''&pageSize='' @ py_str w limit @ ''&apiKey='' @ NEWS_API_KEY w"

definition fallback_query :: "world \<Rightarrow> json \<Rightarrow> string" where
  "fallback_query w category = py_str w category @ '' news''"

definition everything_url :: "world \<Rightarrow> json \<Rightarrow> json \<Rightarrow> string" where
  "everything_url w category limit =
     ''https://newsapi.org/v2/everything?'' @
     ''q='' @ fallback_query w category @ ''&language=en&pageSize='' @ py_str w limit @
     ''&apiKey='' @ NEWS_API_KEY w"

definition requests_get_json :: "world \<Rightarrow> string \<Rightarrow> sys \<Rightarrow> (py_exn + json) \<times> sys" where
  "requests_get_json w url s = (http_get_json w (now s) url, emit (HttpGet url) s)"

text \<open>Lines 48 to 55: the fallback search.\<close>

definition fetch_news_fallback ::
  "world \<Rightarrow> json \<Rightarrow> json \<Rightarrow> sys \<Rightarrow> (py_exn + json) \<times> sys" where
  "fetch_news_fallback w category limit s =
     (case requests_get_json w (everything_url w category limit) s of
        (Inl e, s2) \<Rightarrow> (Inl e, s2)
      | (Inr data2, s2) \<Rightarrow> (dict_get data2 ''articles'' (JArr []), s2))"

text \<open>
  Lines 42 to 55: the body of the \<^verbatim>\<open>try\<close>. \<^verbatim>\<open>data.get("status")\<close> is the first thing done
  to \<open>data\<close>, so a \<open>data\<close> that is not a dict raises there; on a dict neither \<^verbatim>\<open>get\<close> nor
  \<^verbatim>\<open>data["articles"]\<close> (reached only when the key holds a true value) can raise.
\<close>

definition fetch_news_try ::
  "world \<Rightarrow> json \<Rightarrow> json \<Rightarrow> json \<Rightarrow> sys \<Rightarrow> (py_exn + json) \<times> sys" where
  "fetch_news_try w category region limit s =
     (case requests_get_json w (top_headlines_url w category region limit) s of
        (Inl e, s1) \<Rightarrow> (Inl e, s1)
      | (Inr data, s1) \<Rightarrow>
          (case data of
             JObj kvs \<Rightarrow>
               if items_get kvs ''status'' JNull = JStr ''ok''
                  \<and> py_truthy (items_get kvs ''articles'' JNull)
               then (Inr (items_get kvs ''articles'' JNull), s1)
               else fetch_news_fallback w category limit s1
           | _ \<Rightarrow> (Inl (attribute_error data ''get''), s1)))"

definition fetch_news :: "world \<Rightarrow> json \<Rightarrow> json \<Rightarrow> json \<Rightarrow> sys \<Rightarrow> json \<times> sys" where
  "fetch_news w category region limit s =
     (case fetch_news_try w category region limit s of
        (Inl e, s') \<Rightarrow> (JArr [], s')
      | (Inr articles, s') \<Rightarrow> (articles, s'))"

section \<open>summarize\_article\<close>

definition newline :: string where
  "newline = [CHR 0x0A]"

text \<open>The en dash of the prompt and the warning sign of the error string, in UTF-8.\<close>

definition en_dash :: string where
  "en_dash = [CHR 0xE2, CHR 0x80, CHR 0x93]"

definition warning_marker :: string where
  "warning_marker = [CHR 0xE2, CHR 0x9A, CHR 0xA0, CHR 0xEF, CHR 0xB8, CHR 0x8F]"

definition summary_prompt :: "world \<Rightarrow> json \<Rightarrow> json \<Rightarrow> string" where
  "summary_prompt w article_text language =
     newline @
     ''    Summarize the following news article into:'' @ newline @
     ''    1. A short paragraph of 2'' @ en_dash @ ''3 complete sentences.'' @ newline @
     ''    2. Two bullet points highlighting the most important details.'' @ newline @
     newline @
     ''    The summary must be in '' @ py_str w language @ ''.'' @ newline @
     newline @
     ''    Article: '' @ py_str w article_text @ newline @
     ''    ''"

text \<open>Lines 72 to 80: the body of the \<^verbatim>\<open>try\<close>.\<close>

definition summarize_article_try ::
  "world \<Rightarrow> json \<Rightarrow> json \<Rightarrow> sys \<Rightarrow> (py_exn + string) \<times> sys" where
  "summarize_article_try w article_text language s =
     (let prompt = summary_prompt w article_text language in
      case chat_completion w (now s) prompt of
        Inl e \<Rightarrow> (Inl e, emit (ChatCreate prompt) s)
      | Inr content \<Rightarrow> (Inr (str_strip w content), emit (ChatCreate prompt) s))"

definition summarize_article :: "world \<Rightarrow> json \<Rightarrow> json \<Rightarrow> sys \<Rightarrow> string \<times> sys" where
  "summarize_article w article_text language s =
     (case summarize_article_try w article_text language s of
        (Inl e, s') \<Rightarrow> (warning_marker @ '' Error generating summary: '' @ exn_str e, s')
      | (Inr text, s') \<Rightarrow> (text, s'))"

section \<open>generate\_tts\<close>

text \<open>
  Lines 87 to 92: the body of the \<^verbatim>\<open>try\<close>. The temporary file exists on disk from
  \<^verbatim>\<open>NamedTemporaryFile(delete=False, ...)\<close> on, whatever \<^verbatim>\<open>tts.save\<close> does afterwards.
\<close>

definition generate_tts_try ::
  "world \<Rightarrow> json \<Rightarrow> string \<Rightarrow> sys \<Rightarrow> (py_exn + string) \<times> sys" where
  "generate_tts_try w text lang_code s =
     (let s1 = emit (GttsInit text lang_code) s in
      case gtts_init w (now s) text lang_code of
        Some e \<Rightarrow> (Inl e, s1)
      | None \<Rightarrow>
          (case tempfile_new w (now s1) of
             Inl e \<Rightarrow> (Inl e, emit TempFile s1)
           | Inr name \<Rightarrow>
               (let s2 = emit TempFile (s1\<lparr>files := insert name (files s1)\<rparr>) in
                case gtts_save w (now s2) name of
                  Some e \<Rightarrow> (Inl e, emit (GttsSave name) s2)
                | None \<Rightarrow> (Inr name, emit (GttsSave name) s2))))"

definition generate_tts :: "world \<Rightarrow> json \<Rightarrow> string \<Rightarrow> sys \<Rightarrow> string option \<times> sys" where
  "generate_tts w text lang_code s =
     (case generate_tts_try w text lang_code s of
        (Inl e, s') \<Rightarrow> (None, s')
      | (Inr name, s') \<Rightarrow> (Some name, s'))"

section \<open>Responses\<close>

datatype body = JsonBody json | FileBody string string

text \<open>
  A response: status, body, the headers the source sets, and the paths whose deletion the
  source registers with \<^verbatim>\<open>call_on_close\<close>. \<^verbatim>\<open>jsonify(d), code\<close> is a JSON body with a status;
  \<^verbatim>\<open>make_response(send_file(path, mimetype=m))\<close> is a 200 response whose body is the file.
\<close>

record response =
  status :: nat
  body :: body
  headers :: "(string \<times> string) list"
  on_close :: "string list"

definition jsonify :: "json \<Rightarrow> nat \<Rightarrow> response" where
  "jsonify j code = \<lparr>status = code, body = JsonBody j, headers = [], on_close = []\<rparr>"

definition basename :: "string \<Rightarrow> string" where
  "basename p = rev (takeWhile (\<lambda>c. c \<noteq> CHR ''/'') (rev p))"

text \<open>\<^verbatim>\<open>os.remove(path)\<close>.\<close>

definition os_remove :: "world \<Rightarrow> string \<Rightarrow> sys \<Rightarrow> (py_exn + unit) \<times> sys" where
  "os_remove w path s =
     (if path \<notin> files s
      then (Inl (PyExn ''FileNotFoundError'' path), emit (OsRemove path) s)
      else case os_remove_error w (now s) path of
             Some e \<Rightarrow> (Inl e, emit (OsRemove path) s)
           | None \<Rightarrow> (Inr (), emit (OsRemove path) (s\<lparr>files := files s - {path}\<rparr>)))"

text \<open>The \<^verbatim>\<open>cleanup\<close> closure of lines 176 to 180 and 216 to 220, for its captured path.\<close>

definition cleanup :: "world \<Rightarrow> string \<Rightarrow> sys \<Rightarrow> sys" where
  "cleanup w temp_file_path s =
     (case os_remove w temp_file_path s of
        (Inl e, s') \<Rightarrow> s'
      | (Inr u, s') \<Rightarrow> s')"

text \<open>
  \<^verbatim>\<open>Response.close()\<close>: the functions registered with \<^verbatim>\<open>call_on_close\<close> run, in order.
  Whether and when the server calls it is not decided by the source. Werkzeug closes the
  response object after the body of an ordinary response has been sent; the body of
  \<^verbatim>\<open>send_file\<close> is passed through to the server directly, and for it the response object's
  \<^verbatim>\<open>close\<close> need not be called at all.
\<close>

definition close_response :: "world \<Rightarrow> response \<Rightarrow> sys \<Rightarrow> sys" where
  "close_response w r s = fold (cleanup w) (on_close r) s"

section \<open>The /news handler\<close>

definition valid_categories :: "string list" where
  "valid_categories =
     [''general'', ''business'', ''technology'', ''sports'', ''entertainment'', ''science'',
      ''health'']"

text \<open>\<^verbatim>\<open>request.args.get(k, dflt)\<close>.\<close>

definition args_get :: "(string \<times> string) list \<Rightarrow> string \<Rightarrow> string \<Rightarrow> string" where
  "args_get args k dflt = (case map_of args k of Some v \<Rightarrow> v | None \<Rightarrow> dflt)"

text \<open>Line 111: \<^verbatim>\<open>int(request.args.get("limit", 5))\<close>.\<close>

definition parse_limit :: "world \<Rightarrow> (string \<times> string) list \<Rightarrow> py_exn + int" where
  "parse_limit w args = (case map_of args ''limit'' of Some v \<Rightarrow> int_of_str w v | None \<Rightarrow> Inr 5)"

text \<open>Line 128: the text handed to the summarizer, given the article's title.\<close>

definition news_content :: "json \<Rightarrow> json \<Rightarrow> py_exn + json" where
  "news_content article title =
     (case dict_get article ''description'' JNull of
        Inl e \<Rightarrow> Inl e
      | Inr d \<Rightarrow>
          if py_truthy d then Inr d
          else (case dict_get article ''content'' JNull of
                  Inl e \<Rightarrow> Inl e
                | Inr c \<Rightarrow> if py_truthy c then Inr c else Inr title))"

text \<open>Lines 126 to 141: one turn of the loop; the result is the dict appended.\<close>

definition process_article :: "world \<Rightarrow> json \<Rightarrow> json \<Rightarrow> sys \<Rightarrow> (py_exn + json) \<times> sys" where
  "process_article w language article s =
     (case dict_get article ''title'' (JStr ''Untitled'') of
        Inl e \<Rightarrow> (Inl e, s)
      | Inr title \<Rightarrow>
          (case dict_get article ''source'' (JObj []) of
             Inl e \<Rightarrow> (Inl e, s)
           | Inr src \<Rightarrow>
               (case dict_get src ''name'' (JStr ''Unknown'') of
                  Inl e \<Rightarrow> (Inl e, s)
                | Inr source \<Rightarrow>
                    (case news_content article title of
                       Inl e \<Rightarrow> (Inl e, s)
                     | Inr content \<Rightarrow>
                         (case summarize_article w content language s of
                            (summary, s1) \<Rightarrow>
                              (case dict_get article ''url'' JNull of
                                 Inl e \<Rightarrow> (Inl e, s1)
                               | Inr url \<Rightarrow>
                                   (case dict_get article ''urlToImage'' JNull of
                                      Inl e \<Rightarrow> (Inl e, s1)
                                    | Inr img \<Rightarrow>
                                        (case dict_get article ''publishedAt'' JNull of
                                           Inl e \<Rightarrow> (Inl e, s1)
                                         | Inr published \<Rightarrow>
                                             (Inr (JObj
                                                [(''id'', JStr (uuid4 w (now s1))),
                                                 (''title'', title),
                                                 (''source'', source),
                                                 (''summary'', JStr summary),
                                                 (''sentiment'', JStr ''Neutral''),
                                                 (''url'', url),
                                                 (''image'', img),
                                                 (''publishedAt'', published)]), s1)))))))))"

text \<open>Lines 124 to 141: the loop, with \<open>processed\<close> the list built so far.\<close>

fun process_articles ::
  "world \<Rightarrow> json \<Rightarrow> json list \<Rightarrow> json list \<Rightarrow> sys \<Rightarrow> (py_exn + json list) \<times> sys" where
  "process_articles w language [] processed s = (Inr processed, s)"
| "process_articles w language (article # rest) processed s =
     (case process_article w language article s of
        (Inl e, s1) \<Rightarrow> (Inl e, s1)
      | (Inr p, s1) \<Rightarrow> process_articles w language rest (processed @ [p]) s1)"

text \<open>Lines 108 to 149: the body of the \<^verbatim>\<open>try\<close>.\<close>

definition get_news_try ::
  "world \<Rightarrow> (string \<times> string) list \<Rightarrow> sys \<Rightarrow> (py_exn + response) \<times> sys" where
  "get_news_try w args s =
     (let category = args_get args ''category'' ''general'';
          region = args_get args ''region'' ''in'';
          language = args_get args ''language'' ''English''
      in case parse_limit w args of
           Inl e \<Rightarrow> (Inl e, s)
         | Inr limit \<Rightarrow>
             if category \<notin> set valid_categories
             then (Inr (jsonify (JObj [(''error'', JStr ''Invalid category'')]) 400), s)
             else if map_of LANG_MAP language = None
             then (Inr (jsonify (JObj [(''error'', JStr ''Unsupported language'')]) 400), s)
             else
               (case fetch_news w (JStr category) (JStr region) (JInt limit) s of
                  (articles, s1) \<Rightarrow>
                    if \<not> py_truthy articles
                    then (Inr (jsonify (JObj [(''message'', JStr ''No news found''),
                                              (''articles'', JArr [])]) 200), s1)
                    else
                      (case py_iter articles of
                         Inl e \<Rightarrow> (Inl e, s1)
                       | Inr xs \<Rightarrow>
                           (case process_articles w (JStr language) xs [] s1 of
                              (Inl e, s2) \<Rightarrow> (Inl e, s2)
                            | (Inr processed_articles, s2) \<Rightarrow>
                                (Inr (jsonify (JObj
                                   [(''region'', JStr region),
                                    (''category'', JStr category),
                                    (''language'', JStr language),
                                    (''total'', JInt (int (length processed_articles))),
                                    (''articles'', JArr processed_articles)]) 200), s2)))))"

definition get_news :: "world \<Rightarrow> (string \<times> string) list \<Rightarrow> sys \<Rightarrow> response \<times> sys" where
  "get_news w args s =
     (case get_news_try w args s of
        (Inl e, s') \<Rightarrow> (jsonify (JObj [(''error'', JStr (exn_str e))]) 500, s')
      | (Inr r, s') \<Rightarrow> (r, s'))"

section \<open>The /tts handler\<close>

text \<open>
  A POST handler receives the outcome of \<^verbatim>\<open>request.get_json()\<close>: the parsed body, or the
  exception it raises. Neither handler has a \<^verbatim>\<open>try\<close>, so an exception leaves the handler
  (\<open>Inl\<close>; Flask then answers 500). \<^verbatim>\<open>data.get\<close> is the first thing done to \<open>data\<close>, so a body that is not a dict
  raises there.
\<close>

definition audio_response :: "string \<Rightarrow> (string \<times> string) list \<Rightarrow> response" where
  "audio_response temp_file_path hdrs =
     \<lparr>status = 200, body = FileBody temp_file_path ''audio/mp3'', headers = hdrs,
      on_close = [temp_file_path]\<rparr>"

definition get_tts :: "world \<Rightarrow> py_exn + json \<Rightarrow> sys \<Rightarrow> (py_exn + response) \<times> sys" where
  "get_tts w get_json s =
     (case get_json of
        Inl e \<Rightarrow> (Inl e, s)
      | Inr data \<Rightarrow>
          (case data of
             JObj kvs \<Rightarrow>
               (let text = items_get kvs ''text'' JNull;
                    language = items_get kvs ''language'' (JStr ''English'')
                in if \<not> py_truthy text
                   then (Inr (jsonify (JObj [(''error'',
                           JStr (''Missing '' @ quote @ ''text'' @ quote @ '' in request''))]) 400), s)
                   else
                     (case lang_map_get language of
                        Inl e \<Rightarrow> (Inl e, s)
                      | Inr lang_code \<Rightarrow>
                          (case generate_tts w text lang_code s of
                             (None, s1) \<Rightarrow>
                               (Inr (jsonify (JObj [(''error'', JStr ''TTS generation failed'')]) 500),
                                s1)
                           | (Some temp_file_path, s1) \<Rightarrow>
                               if temp_file_path = []
                               then (Inr (jsonify
                                       (JObj [(''error'', JStr ''TTS generation failed'')]) 500), s1)
                               else (Inr (audio_response temp_file_path
                                            [(''X-Audio-File'', basename temp_file_path)]), s1))))
           | _ \<Rightarrow> (Inl (attribute_error data ''get''), s)))"

section \<open>The /briefing handler\<close>

text \<open>
  Line 199: the text handed to the summarizer. \<^verbatim>\<open>a.get("description")\<close> comes first, so an
  \<open>a\<close> that is not a dict raises there; \<^verbatim>\<open>a["title"]\<close> is a plain subscript.
\<close>

definition briefing_content :: "json \<Rightarrow> py_exn + json" where
  "briefing_content a =
     (case a of
        JObj kvs \<Rightarrow>
          (let d = items_get kvs ''description'' JNull in
           if py_truthy d then Inr d
           else (let c = items_get kvs ''content'' JNull in
                 if py_truthy c then Inr c
                 else (case map_of kvs ''title'' of
                         Some t \<Rightarrow> Inr t
                       | None \<Rightarrow> Inl (key_error ''title''))))
      | _ \<Rightarrow> Inl (attribute_error a ''get''))"

text \<open>Lines 197 to 203: the list comprehension, with \<open>summaries\<close> the list built so far.\<close>

fun briefing_summaries ::
  "world \<Rightarrow> json \<Rightarrow> json list \<Rightarrow> string list \<Rightarrow> sys \<Rightarrow> (py_exn + string list) \<times> sys" where
  "briefing_summaries w language [] summaries s = (Inr summaries, s)"
| "briefing_summaries w language (a # rest) summaries s =
     (case briefing_content a of
        Inl e \<Rightarrow> (Inl e, s)
      | Inr content \<Rightarrow>
          (case summarize_article w content language s of
             (summary, s1) \<Rightarrow> briefing_summaries w language rest (summaries @ [summary]) s1))"

text \<open>\<^verbatim>\<open>" ".join(summaries)\<close>.\<close>

fun join_space :: "string list \<Rightarrow> string" where
  "join_space [] = []"
| "join_space [x] = x"
| "join_space (x # y # ys) = x @ '' '' @ join_space (y # ys)"

definition briefing_intro :: "world \<Rightarrow> json \<Rightarrow> json \<Rightarrow> string" where
  "briefing_intro w category region =
     ''Good morning! Here are today'' @ quote @ ''s top '' @ py_str w category @
     '' news from '' @ py_str w region @ ''. ''"

definition daily_briefing ::
  "world \<Rightarrow> py_exn + json \<Rightarrow> sys \<Rightarrow> (py_exn + response) \<times> sys" where
  "daily_briefing w get_json s =
     (case get_json of
        Inl e \<Rightarrow> (Inl e, s)
      | Inr data \<Rightarrow>
          (case data of
             JObj kvs \<Rightarrow>
               (let category = items_get kvs ''category'' (JStr ''general'');
                    region = items_get kvs ''region'' (JStr ''in'');
                    language = items_get kvs ''language'' (JStr ''English'');
                    limit = items_get kvs ''limit'' (JInt 5)
                in case fetch_news w category region limit s of
                     (articles, s1) \<Rightarrow>
                       if \<not> py_truthy articles
                       then (Inr (jsonify (JObj [(''error'',
                               JStr ''No articles available for briefing'')]) 400), s1)
                       else
                         (case py_iter articles of
                            Inl e \<Rightarrow> (Inl e, s1)
                          | Inr xs \<Rightarrow>
                              (case briefing_summaries w language xs [] s1 of
                                 (Inl e, s2) \<Rightarrow> (Inl e, s2)
                               | (Inr summaries, s2) \<Rightarrow>
                                   (let combined_summary = join_space summaries;
                                        intro = briefing_intro w category region;
                                        full_text = intro @ combined_summary
                                    in case lang_map_get language of
                                         Inl e \<Rightarrow> (Inl e, s2)
                                       | Inr lang_code \<Rightarrow>
                                           (case generate_tts w (JStr full_text) lang_code s2 of
                                              (None, s3) \<Rightarrow>
                                                (Inr (jsonify (JObj [(''error'',
                                                   JStr ''Failed to generate audio briefing'')]) 500),
                                                 s3)
                                            | (Some temp_file_path, s3) \<Rightarrow>
                                                if temp_file_path = []
                                                then (Inr (jsonify (JObj [(''error'',
                                                   JStr ''Failed to generate audio briefing'')]) 500),
                                                   s3)
                                                else (Inr (audio_response temp_file_path
                                                   [(''X-Audio-Type'', ''daily-briefing'')]),
                                                   s3))))))
           | _ \<Rightarrow> (Inl (attribute_error data ''get''), s)))"

section \<open>Observations on a run\<close>

text \<open>The calls to the speech synthesizer found in a trace, with their language codes.\<close>

fun tts_request :: "event \<Rightarrow> (json \<times> string) option" where
  "tts_request (GttsInit text lang_code) = Some (text, lang_code)"
| "tts_request ev = None"

definition tts_requests :: "event list \<Rightarrow> (json \<times> string) list" where
  "tts_requests tr = List.map_filter tts_request tr"

text \<open>The \<^verbatim>\<open>articles\<close> array of a JSON response, when it has one.\<close>

definition response_articles :: "response \<Rightarrow> json list option" where
  "response_articles r =
     (case body r of
        JsonBody (JObj kvs) \<Rightarrow>
          (case map_of kvs ''articles'' of Some (JArr xs) \<Rightarrow> Some xs | _ \<Rightarrow> None)
      | _ \<Rightarrow> None)"

text \<open>
  An article the loop of the /news handler gets through: a dict whose \<^verbatim>\<open>source\<close> entry,
  when there is one, is a dict too.
\<close>

fun is_dict :: "json \<Rightarrow> bool" where
  "is_dict (JObj kvs) = True"
| "is_dict v = False"

definition article_ok :: "json \<Rightarrow> bool" where
  "article_ok a = (case a of JObj kvs \<Rightarrow> is_dict (items_get kvs ''source'' (JObj [])) | _ \<Rightarrow> False)"

section \<open>Example worlds\<close>

text \<open>\<^verbatim>\<open>int(s)\<close> on plain decimal literals with an optional sign.\<close>

definition parse_digits :: "string \<Rightarrow> nat option" where
  "parse_digits ds =
     (if ds \<noteq> [] \<and> list_all (\<lambda>c. c \<in> set ''0123456789'') ds
      then Some (foldl (\<lambda>a c. 10 * a + (of_char c - 48)) 0 ds) else None)"

definition plain_int :: "string \<Rightarrow> py_exn + int" where
  "plain_int t =
     (case (case t of
              CHR ''-'' # ds \<Rightarrow> map_option (\<lambda>n. - int n) (parse_digits ds)
            | CHR ''+'' # ds \<Rightarrow> map_option int (parse_digits ds)
            | _ \<Rightarrow> map_option int (parse_digits t)) of
        Some i \<Rightarrow> Inr i
      | None \<Rightarrow> Inl (PyExn ''ValueError''
                  (''invalid literal for int() with base 10: '' @ quote @ t @ quote)))"

text \<open>
  A world in which the news provider answers the \<open>n\<close>-th effect of a run with \<open>news n\<close>, the
  summarizer with \<open>chat n\<close>, and speech synthesis fails in \<^verbatim>\<open>tts.save\<close> when \<open>save_error\<close>
  says so.
\<close>

definition example_world ::
  "(nat \<Rightarrow> py_exn + json) \<Rightarrow> (nat \<Rightarrow> py_exn + string) \<Rightarrow> py_exn option \<Rightarrow> world" where
  "example_world news chat save_error =
     \<lparr>env_news_api_key = None,
      http_get_json = (\<lambda>n url. news n),
      chat_completion = (\<lambda>n prompt. chat n),
      gtts_init = (\<lambda>n text lang_code. None),
      tempfile_new = (\<lambda>n. Inr ''/tmp/tmpk3v9x2qa.mp3''),
      gtts_save = (\<lambda>n name. save_error),
      os_remove_error = (\<lambda>n name. None),
      uuid4 = (\<lambda>n. ''00000000-0000-4000-8000-00000000000'' @ str_of_nat (n mod 10)),
      int_of_str = plain_int,
      str_of_value = (\<lambda>v. ''[]''),
      str_strip = (\<lambda>t. t)\<rparr>"

definition timeout_error :: py_exn where
  "timeout_error = PyExn ''Timeout'' ''Request timed out''"

definition start :: sys where
  "start = \<lparr>files = {}, trace = []\<rparr>"

definition news_down :: "nat \<Rightarrow> py_exn + json" where
  "news_down n = Inl timeout_error"

definition news_fallback_down :: "nat \<Rightarrow> py_exn + json" where
  "news_fallback_down n =
     (if n = 0 then Inr (JObj [(''status'', JStr ''error''), (''code'', JStr ''rateLimited'')])
      else Inl timeout_error)"

definition news_primary_empty :: "nat \<Rightarrow> py_exn + json" where
  "news_primary_empty n =
     (if n = 0
      then Inr (JObj [(''status'', JStr ''ok''), (''totalResults'', JInt 0), (''articles'', JArr [])])
      else Inr (JObj [(''status'', JStr ''ok''),
                      (''articles'', JArr [JObj [(''title'', JStr ''Cup final tonight'')]])]))"

definition chat_ok :: "nat \<Rightarrow> py_exn + string" where
  "chat_ok n = Inr ''A short summary.''"

definition chat_down :: "nat \<Rightarrow> py_exn + string" where
  "chat_down n = Inl timeout_error"

definition news_none :: "nat \<Rightarrow> py_exn + json" where
  "news_none n =
     Inr (JObj [(''status'', JStr ''ok''), (''totalResults'', JInt 0), (''articles'', JArr [])])"

definition news_untitled :: "nat \<Rightarrow> py_exn + json" where
  "news_untitled n =
     Inr (JObj [(''status'', JStr ''ok''),
                (''articles'', JArr [JObj [(''description'', JNull),
                                           (''url'', JStr ''https://example.org/a'')]])])"

definition news_three :: "nat \<Rightarrow> py_exn + json" where
  "news_three n =
     Inr (JObj [(''status'', JStr ''ok''),
                (''articles'', JArr [JObj [(''title'', JStr ''One'')],
                                     JObj [(''title'', JStr ''Two'')],
                                     JObj [(''title'', JStr ''Three'')]])])"

text \<open>Whether a value can be a dict key: lists and dicts cannot.\<close>

fun hashable :: "json \<Rightarrow> bool" where
  "hashable (JArr xs) = False"
| "hashable (JObj kvs) = False"
| "hashable v = True"

definition news_one :: "nat \<Rightarrow> py_exn + json" where
  "news_one n =
     Inr (JObj [(''status'', JStr ''ok''),
                (''articles'', JArr [JObj [(''title'', JStr ''Stars align''),
                                           (''description'', JStr ''A rare conjunction.'')]])])"

definition news_null :: "nat \<Rightarrow> py_exn + json" where
  "news_null n = Inr JNull"

section \<open>Basic facts\<close>

lemma trace_emit: "trace (emit ev s) = trace s @ [ev]"
  by (simp add: emit_def)

lemma files_emit: "files (emit ev s) = files s"
  by (simp add: emit_def)

lemma now_emit: "now (emit ev s) = Suc (now s)"
  by (simp add: emit_def now_def)

lemmas world_simps = example_world_def start_def now_def top_headlines_url_def everything_url_def
  fallback_query_def py_str_def NEWS_API_KEY_def str_of_int_def items_get_def

section \<open>The news fetcher\<close>

text \<open>
  Claim C1, as amended. For every call to \<open>fetch_news\<close> whose top-headlines request returns
  a JSON object, the fallback search is issued exactly when the object's \<^verbatim>\<open>status\<close> is not
  \<^verbatim>\<open>"ok"\<close> or its \<^verbatim>\<open>articles\<close> entry is empty or absent. The fallback request is the second
  and last request of the call; its query is the category followed by \<^verbatim>\<open>" news"\<close>, its
  language filter is \<^verbatim>\<open>en\<close>, its page size is that of the primary request, and its
  \<^verbatim>\<open>articles\<close> entry is returned as it is (the empty list when the entry is absent or the
  request fails). Otherwise the primary request is the only one and its articles are
  returned.
\<close>

theorem fetch_news_fallback_policy:
  assumes "http_get_json w (now s) (top_headlines_url w category region limit) = Inr (JObj kvs)"
  shows "if items_get kvs ''status'' JNull \<noteq> JStr ''ok''
            \<or> \<not> py_truthy (items_get kvs ''articles'' JNull)
         then trace (snd (fetch_news w category region limit s)) =
                trace s @
                [HttpGet (top_headlines_url w category region limit),
                 HttpGet (''https://newsapi.org/v2/everything?q='' @ py_str w category @
                          '' news&language=en&pageSize='' @ py_str w limit @
                          ''&apiKey='' @ NEWS_API_KEY w)]
              \<and> fst (fetch_news w category region limit s) =
                  (case http_get_json w (Suc (now s)) (everything_url w category limit) of
                     Inr (JObj kvs2) \<Rightarrow> items_get kvs2 ''articles'' (JArr [])
                   | _ \<Rightarrow> JArr [])
         else trace (snd (fetch_news w category region limit s)) =
                trace s @ [HttpGet (top_headlines_url w category region limit)]
              \<and> fst (fetch_news w category region limit s) = items_get kvs ''articles'' JNull"
  using assms
  by (auto simp add: fetch_news_def fetch_news_try_def fetch_news_fallback_def
      requests_get_json_def now_emit trace_emit everything_url_def fallback_query_def dict_get_def
      split: prod.splits sum.splits json.splits)

theorem fetch_news_fallback_policy_witness:
  "http_get_json (example_world news_primary_empty chat_ok None) (now start)
      (top_headlines_url (example_world news_primary_empty chat_ok None)
         (JStr ''sports'') (JStr ''in'') (JInt 5))
     = Inr (JObj [(''status'', JStr ''ok''), (''totalResults'', JInt 0), (''articles'', JArr [])])
   \<and> trace (snd (fetch_news (example_world news_primary_empty chat_ok None)
                  (JStr ''sports'') (JStr ''in'') (JInt 5) start)) =
       [HttpGet ''https://newsapi.org/v2/top-headlines?country=in&category=sports&pageSize=5&apiKey=809a78470dbf4902bcbba81cae58b192'',
        HttpGet ''https://newsapi.org/v2/everything?q=sports news&language=en&pageSize=5&apiKey=809a78470dbf4902bcbba81cae58b192'']
   \<and> fst (fetch_news (example_world news_primary_empty chat_ok None)
            (JStr ''sports'') (JStr ''in'') (JInt 5) start) =
       JArr [JObj [(''title'', JStr ''Cup final tonight'')]]"
  using fetch_news_fallback_policy [of "example_world news_primary_empty chat_ok None" start
      "JStr ''sports''" "JStr ''in''" "JInt 5"
      "[(''status'', JStr ''ok''), (''totalResults'', JInt 0), (''articles'', JArr [])]"]
  by (simp add: world_simps news_primary_empty_def)

text \<open>
  The claim as stated fails: a primary answer that is JSON but not an object (here \<^verbatim>\<open>null\<close>)
  has no \<^verbatim>\<open>status\<close> that is \<^verbatim>\<open>"ok"\<close> and no articles, and yet no fallback request is made:
  \<^verbatim>\<open>data.get\<close> raises and the \<^verbatim>\<open>except\<close> branch returns the empty list.
\<close>

theorem fetch_news_fallback_policy_counterexample:
  "http_get_json (example_world news_null chat_ok None) (now start)
      (top_headlines_url (example_world news_null chat_ok None)
         (JStr ''sports'') (JStr ''in'') (JInt 5)) = Inr JNull
   \<and> trace (snd (fetch_news (example_world news_null chat_ok None)
                  (JStr ''sports'') (JStr ''in'') (JInt 5) start)) =
       [HttpGet ''https://newsapi.org/v2/top-headlines?country=in&category=sports&pageSize=5&apiKey=809a78470dbf4902bcbba81cae58b192'']
   \<and> fst (fetch_news (example_world news_null chat_ok None)
            (JStr ''sports'') (JStr ''in'') (JInt 5) start) = JArr []"
  by (simp add: world_simps fetch_news_def fetch_news_try_def requests_get_json_def emit_def
      news_null_def)

text \<open>
  Claim C2. When the primary request fails (timeout, connection error, malformed JSON), and
  when the primary response calls for the fallback and the fallback request fails,
  \<open>fetch_news\<close> returns the empty list: the exception does not reach the caller.
\<close>

theorem fetch_news_never_raises:
  "(http_get_json w (now s) (top_headlines_url w category region limit) = Inl e
      \<longrightarrow> fst (fetch_news w category region limit s) = JArr [])
   \<and> (http_get_json w (now s) (top_headlines_url w category region limit) = Inr (JObj kvs)
      \<and> \<not> (items_get kvs ''status'' JNull = JStr ''ok''
             \<and> py_truthy (items_get kvs ''articles'' JNull))
      \<and> http_get_json w (Suc (now s)) (everything_url w category limit) = Inl e
      \<longrightarrow> fst (fetch_news w category region limit s) = JArr [])"
  by (auto simp add: fetch_news_def fetch_news_try_def fetch_news_fallback_def
      requests_get_json_def now_emit split: prod.splits sum.splits)

theorem fetch_news_never_raises_witness:
  "http_get_json (example_world news_down chat_ok None) (now start)
      (top_headlines_url (example_world news_down chat_ok None)
         (JStr ''sports'') (JStr ''in'') (JInt 5))
     = Inl timeout_error
   \<and> fst (fetch_news (example_world news_down chat_ok None)
            (JStr ''sports'') (JStr ''in'') (JInt 5) start)
     = JArr []
   \<and> http_get_json (example_world news_fallback_down chat_ok None) (now start)
      (top_headlines_url (example_world news_fallback_down chat_ok None)
         (JStr ''sports'') (JStr ''in'') (JInt 5))
     = Inr (JObj [(''status'', JStr ''error''), (''code'', JStr ''rateLimited'')])
   \<and> http_get_json (example_world news_fallback_down chat_ok None) (Suc (now start))
      (everything_url (example_world news_fallback_down chat_ok None) (JStr ''sports'') (JInt 5))
     = Inl timeout_error
   \<and> fst (fetch_news (example_world news_fallback_down chat_ok None)
            (JStr ''sports'') (JStr ''in'') (JInt 5) start)
     = JArr []"
  using fetch_news_never_raises [of "example_world news_down chat_ok None" start
      "JStr ''sports''" "JStr ''in''" "JInt 5" timeout_error "[]"]
    fetch_news_never_raises [of "example_world news_fallback_down chat_ok None" start
      "JStr ''sports''" "JStr ''in''" "JInt 5" timeout_error
      "[(''status'', JStr ''error''), (''code'', JStr ''rateLimited'')]"]
  by (simp add: example_world_def start_def now_def news_down_def news_fallback_down_def
      items_get_def)

text \<open>
  When the primary request raises, or answers with JSON that is not an object, the
  \<^verbatim>\<open>except\<close> branch is taken at once: the result is the empty list and no fallback
  request is made.
\<close>

lemma fetch_news_primary_unusable:
  assumes "case http_get_json w (now s) (top_headlines_url w category region limit) of
             Inl e \<Rightarrow> True | Inr data \<Rightarrow> \<not> is_dict data"
  shows "fetch_news w category region limit s =
           (JArr [], emit (HttpGet (top_headlines_url w category region limit)) s)"
  using assms
  by (auto simp add: fetch_news_def fetch_news_try_def requests_get_json_def
      split: sum.splits json.splits)

section \<open>The summarizer\<close>

text \<open>
  Claim C8. When the chat-completion call fails, or its response cannot be read,
  \<open>summarize_article\<close> returns the warning sign followed by
  \<^verbatim>\<open>" Error generating summary: "\<close> and the text of the exception; the exception does not
  reach the caller.
\<close>

theorem summarize_article_failure:
  assumes "chat_completion w (now s) (summary_prompt w article_text language) = Inl e"
  shows "fst (summarize_article w article_text language s) =
           warning_marker @ '' Error generating summary: '' @ exn_str e"
  using assms by (simp add: summarize_article_def summarize_article_try_def Let_def)

theorem summarize_article_failure_witness:
  "chat_completion (example_world news_down chat_down None) (now start)
      (summary_prompt (example_world news_down chat_down None)
         (JStr ''Rain expected.'') (JStr ''Tamil'')) = Inl timeout_error
   \<and> fst (summarize_article (example_world news_down chat_down None)
         (JStr ''Rain expected.'') (JStr ''Tamil'') start) =
       [CHR 0xE2, CHR 0x9A, CHR 0xA0, CHR 0xEF, CHR 0xB8, CHR 0x8F] @
       '' Error generating summary: Request timed out''"
proof -
  let ?w = "example_world news_down chat_down None"
  have h: "chat_completion ?w (now start)
             (summary_prompt ?w (JStr ''Rain expected.'') (JStr ''Tamil'')) = Inl timeout_error"
    by (simp add: example_world_def chat_down_def)
  from summarize_article_failure [OF h] show ?thesis
    using h by (simp add: warning_marker_def timeout_error_def)
qed

section \<open>Effects of the news fetcher\<close>

lemma fetch_news_effects:
  "\<exists>urls. trace (snd (fetch_news w c r l s)) = trace s @ map HttpGet urls
     \<and> files (snd (fetch_news w c r l s)) = files s"
proof -
  let ?u1 = "top_headlines_url w c r l" and ?u2 = "everything_url w c l"
  have "trace (snd (fetch_news w c r l s)) = trace s @ map HttpGet [?u1]
          \<or> trace (snd (fetch_news w c r l s)) = trace s @ map HttpGet [?u1, ?u2]"
    by (auto simp add: fetch_news_def fetch_news_try_def fetch_news_fallback_def
        requests_get_json_def trace_emit split: prod.splits sum.splits json.splits)
  moreover have "files (snd (fetch_news w c r l s)) = files s"
    by (auto simp add: fetch_news_def fetch_news_try_def fetch_news_fallback_def
        requests_get_json_def files_emit split: prod.splits sum.splits json.splits)
  ultimately show ?thesis by blast
qed

lemma tts_requests_append: "tts_requests (xs @ ys) = tts_requests xs @ tts_requests ys"
  by (induction xs) (simp_all add: tts_requests_def split: option.splits)

lemma tts_requests_http: "tts_requests (map HttpGet urls) = []"
  by (induction urls) (simp_all add: tts_requests_def)

lemma fetch_news_no_tts:
  "tts_requests (trace (snd (fetch_news w c r l s))) = tts_requests (trace s)"
  using fetch_news_effects [of w c r l s] by (auto simp add: tts_requests_append tts_requests_http)

section \<open>Validation in the /news handler\<close>

lemma get_news_invalid_category:
  assumes "parse_limit w args = Inr n"
    and "args_get args ''category'' ''general'' \<notin> set valid_categories"
  shows "get_news w args s = (jsonify (JObj [(''error'', JStr ''Invalid category'')]) 400, s)"
  using assms by (simp add: get_news_def get_news_try_def)

lemma get_news_invalid_language:
  assumes "parse_limit w args = Inr n"
    and "args_get args ''category'' ''general'' \<in> set valid_categories"
    and "map_of LANG_MAP (args_get args ''language'' ''English'') = None"
  shows "get_news w args s = (jsonify (JObj [(''error'', JStr ''Unsupported language'')]) 400, s)"
  using assms by (simp add: get_news_def get_news_try_def)

lemma set_valid_categories:
  "set valid_categories =
     {''general'', ''business'', ''technology'', ''sports'', ''entertainment'', ''science'',
      ''health''}"
  by (simp add: valid_categories_def)

lemma lang_map_none:
  "(map_of LANG_MAP l = None) = (l \<notin> {''English'', ''Tamil'', ''Hindi''})"
  by (simp add: LANG_MAP_def)

text \<open>
  Claim C3, as amended. The handler converts \<^verbatim>\<open>limit\<close> with \<^verbatim>\<open>int\<close> before it validates
  anything. For a /news request whose \<^verbatim>\<open>limit\<close> is absent or accepted by \<^verbatim>\<open>int\<close>: a category
  outside the seven allowed values gives 400, and a language outside English, Tamil and
  Hindi gives 400; in both cases no external service is called.
\<close>

theorem get_news_rejects:
  assumes "parse_limit w args = Inr n"
  shows "(args_get args ''category'' ''general'' \<notin>
            {''general'', ''business'', ''technology'', ''sports'', ''entertainment'', ''science'',
             ''health''}
          \<longrightarrow> status (fst (get_news w args s)) = 400 \<and> snd (get_news w args s) = s)
       \<and> (args_get args ''language'' ''English'' \<notin> {''English'', ''Tamil'', ''Hindi''}
          \<longrightarrow> status (fst (get_news w args s)) = 400 \<and> snd (get_news w args s) = s)"
proof (intro conjI impI)
  assume "args_get args ''category'' ''general'' \<notin>
            {''general'', ''business'', ''technology'', ''sports'', ''entertainment'', ''science'',
             ''health''}"
  then have "args_get args ''category'' ''general'' \<notin> set valid_categories"
    by (simp add: set_valid_categories)
  from get_news_invalid_category [OF assms this]
  show "status (fst (get_news w args s)) = 400" "snd (get_news w args s) = s"
    by (simp_all add: jsonify_def)
next
  assume "args_get args ''language'' ''English'' \<notin> {''English'', ''Tamil'', ''Hindi''}"
  then have unsupported: "map_of LANG_MAP (args_get args ''language'' ''English'') = None"
    by (simp add: lang_map_none)
  have "status (fst (get_news w args s)) = 400 \<and> snd (get_news w args s) = s"
  proof (cases "args_get args ''category'' ''general'' \<in> set valid_categories")
    case True
    from get_news_invalid_language [OF assms True unsupported] show ?thesis
      by (simp add: jsonify_def)
  next
    case False
    from get_news_invalid_category [OF assms False] show ?thesis by (simp add: jsonify_def)
  qed
  then show "status (fst (get_news w args s)) = 400" "snd (get_news w args s) = s" by simp_all
qed

theorem get_news_rejects_witness:
  "parse_limit (example_world news_down chat_ok None)
      [(''category'', ''weather''), (''limit'', ''3'')] = Inr 3
   \<and> args_get [(''category'', ''weather''), (''limit'', ''3'')] ''category'' ''general''
       = ''weather''
   \<and> status (fst (get_news (example_world news_down chat_ok None)
                [(''category'', ''weather''), (''limit'', ''3'')] start)) = 400
   \<and> parse_limit (example_world news_down chat_ok None) [(''language'', ''French'')] = Inr 5
   \<and> args_get [(''language'', ''French'')] ''language'' ''English'' = ''French''
   \<and> status (fst (get_news (example_world news_down chat_ok None)
                [(''language'', ''French'')] start)) = 400"
proof -
  let ?w = "example_world news_down chat_ok None"
  have h1: "parse_limit ?w [(''category'', ''weather''), (''limit'', ''3'')] = Inr 3"
    by (simp add: parse_limit_def example_world_def plain_int_def parse_digits_def)
  have h2: "parse_limit ?w [(''language'', ''French'')] = Inr 5"
    by (simp add: parse_limit_def)
  from get_news_rejects [OF h1, of start] get_news_rejects [OF h2, of start] h1 h2
  show ?thesis by (simp add: args_get_def)
qed

text \<open>
  The claim as stated fails: the request \<^verbatim>\<open>/news?category=weather&limit=abc\<close> has a category
  outside the allowed values and is answered with 500, since \<^verbatim>\<open>int("abc")\<close> raises before the
  category is looked at.
\<close>

theorem get_news_rejects_counterexample:
  "args_get [(''category'', ''weather''), (''limit'', ''abc'')] ''category'' ''general''
     = ''weather''
   \<and> ''weather'' \<notin> {''general'', ''business'', ''technology'', ''sports'', ''entertainment'',
                      ''science'', ''health''}
   \<and> status (fst (get_news (example_world news_down chat_ok None)
                [(''category'', ''weather''), (''limit'', ''abc'')] start)) = 500"
  by (simp add: args_get_def get_news_def get_news_try_def parse_limit_def example_world_def
      plain_int_def parse_digits_def jsonify_def)

section \<open>No news found\<close>

lemma get_news_no_articles:
  assumes "parse_limit w args = Inr n"
    and "args_get args ''category'' ''general'' \<in> set valid_categories"
    and "map_of LANG_MAP (args_get args ''language'' ''English'') \<noteq> None"
    and "\<not> py_truthy (fst (fetch_news w (JStr (args_get args ''category'' ''general''))
              (JStr (args_get args ''region'' ''in'')) (JInt n) s))"
  shows "fst (get_news w args s) =
           jsonify (JObj [(''message'', JStr ''No news found''), (''articles'', JArr [])]) 200"
proof (cases "fetch_news w (JStr (args_get args ''category'' ''general''))
              (JStr (args_get args ''region'' ''in'')) (JInt n) s")
  case (Pair articles s1)
  with assms show ?thesis
    by (auto simp add: get_news_def get_news_try_def Let_def)
qed

section \<open>A briefing without articles\<close>

text \<open>
  Claim C7. For a /briefing request whose body is a JSON object and for which \<open>fetch_news\<close>
  returns no articles, the handler returns 400, and the run holds no call to the speech
  synthesizer and creates no file.
\<close>

theorem daily_briefing_no_articles:
  assumes "get_json = Inr (JObj kvs)"
    and "\<not> py_truthy (fst (fetch_news w (items_get kvs ''category'' (JStr ''general''))
              (items_get kvs ''region'' (JStr ''in'')) (items_get kvs ''limit'' (JInt 5)) s))"
  shows "fst (daily_briefing w get_json s) =
           Inr \<lparr>status = 400,
                body = JsonBody (JObj [(''error'', JStr ''No articles available for briefing'')]),
                headers = [], on_close = []\<rparr>
       \<and> tts_requests (trace (snd (daily_briefing w get_json s))) = tts_requests (trace s)
       \<and> files (snd (daily_briefing w get_json s)) = files s"
proof -
  let ?f = "fetch_news w (items_get kvs ''category'' (JStr ''general''))
              (items_get kvs ''region'' (JStr ''in'')) (items_get kvs ''limit'' (JInt 5)) s"
  obtain articles s1 where f: "?f = (articles, s1)" by (cases ?f)
  with assms(2) have falsy: "\<not> py_truthy articles" by simp
  have d: "daily_briefing w get_json s =
             (Inr (jsonify (JObj [(''error'', JStr ''No articles available for briefing'')]) 400),
              s1)"
    using assms(1) f falsy by (simp add: daily_briefing_def Let_def)
  have "tts_requests (trace (snd ?f)) = tts_requests (trace s)"
    by (rule fetch_news_no_tts)
  moreover have "files (snd ?f) = files s"
    using fetch_news_effects [of w _ _ _ s] by blast
  ultimately show ?thesis using d f by (simp add: jsonify_def)
qed

theorem daily_briefing_no_articles_witness:
  "\<not> py_truthy (fst (fetch_news (example_world news_none chat_ok None)
        (items_get [(''category'', JStr ''health'')] ''category'' (JStr ''general''))
        (items_get [(''category'', JStr ''health'')] ''region'' (JStr ''in''))
        (items_get [(''category'', JStr ''health'')] ''limit'' (JInt 5)) start))
   \<and> fst (daily_briefing (example_world news_none chat_ok None)
           (Inr (JObj [(''category'', JStr ''health'')])) start) =
       Inr \<lparr>status = 400,
            body = JsonBody (JObj [(''error'', JStr ''No articles available for briefing'')]),
            headers = [], on_close = []\<rparr>
   \<and> tts_requests (trace (snd (daily_briefing (example_world news_none chat_ok None)
           (Inr (JObj [(''category'', JStr ''health'')])) start))) = []"
proof -
  let ?w = "example_world news_none chat_ok None"
  let ?kvs = "[(''category'', JStr ''health'')]"
  have h: "\<not> py_truthy (fst (fetch_news ?w (items_get ?kvs ''category'' (JStr ''general''))
        (items_get ?kvs ''region'' (JStr ''in'')) (items_get ?kvs ''limit'' (JInt 5)) start))"
    by (simp add: fetch_news_def fetch_news_try_def fetch_news_fallback_def
        requests_get_json_def dict_get_def example_world_def news_none_def items_get_def)
  from daily_briefing_no_articles [OF refl h] h show ?thesis
    by (simp add: start_def tts_requests_def)
qed

lemmas run_simps = fetch_news_def fetch_news_try_def fetch_news_fallback_def
  requests_get_json_def dict_get_def items_get_def emit_def now_def start_def
  summarize_article_def summarize_article_try_def process_article_def news_content_def
  briefing_content_def jsonify_def Let_def

section \<open>The length of the /news listing\<close>

lemma summarize_article_total:
  "\<exists>summary s'. summarize_article w content language s = (summary, s')"
  by (cases "summarize_article w content language s") simp

lemma news_content_dict:
  "\<exists>content. news_content (JObj kvs) title = Inr content"
  by (simp add: news_content_def dict_get_def)

lemma process_article_ok:
  assumes "article_ok a"
  shows "\<exists>p s'. process_article w language a s = (Inr p, s')"
proof -
  from assms obtain kvs where a: "a = JObj kvs"
    by (cases a) (simp_all add: article_ok_def)
  with assms obtain skvs where src: "items_get kvs ''source'' (JObj []) = JObj skvs"
    by (cases "items_get kvs ''source'' (JObj [])") (simp_all add: article_ok_def)
  obtain content
    where c: "news_content a (items_get kvs ''title'' (JStr ''Untitled'')) = Inr content"
    using a news_content_dict by blast
  obtain summary s1 where sm: "summarize_article w content language s = (summary, s1)"
    using summarize_article_total by blast
  show ?thesis
    using a src c sm by (simp add: process_article_def dict_get_def)
qed

lemma process_articles_ok:
  assumes "\<forall>a \<in> set xs. article_ok a"
  shows "\<exists>ps s'. process_articles w language xs processed s = (Inr ps, s')
           \<and> length ps = length processed + length xs"
  using assms
proof (induction xs arbitrary: processed s)
  case Nil
  then show ?case by simp
next
  case (Cons a xs)
  then have "article_ok a" by simp
  then obtain p s1 where p: "process_article w language a s = (Inr p, s1)"
    using process_article_ok by blast
  from Cons have "\<forall>a \<in> set xs. article_ok a" by simp
  from Cons.IH [OF this, of "processed @ [p]" s1] p show ?case by auto
qed

text \<open>
  Claim C4, as amended. The handler never shortens the list it gets from \<open>fetch_news\<close>. For a
  /news request with a valid category, a valid language and a \<^verbatim>\<open>limit\<close> that is absent or
  accepted by \<^verbatim>\<open>int\<close>: when \<open>fetch_news\<close> returns a list of dicts whose \<^verbatim>\<open>source\<close> entries, where
  present, are dicts, the response is 200 and its \<^verbatim>\<open>articles\<close> array has exactly as many
  entries as that list. Its length is within the limit when, and only when, the provider's
  list is.
\<close>

theorem get_news_ok_length:
  assumes "parse_limit w args = Inr n"
    and "args_get args ''category'' ''general'' \<in>
           {''general'', ''business'', ''technology'', ''sports'', ''entertainment'', ''science'',
            ''health''}"
    and "args_get args ''language'' ''English'' \<in> {''English'', ''Tamil'', ''Hindi''}"
    and "fst (fetch_news w (JStr (args_get args ''category'' ''general''))
           (JStr (args_get args ''region'' ''in'')) (JInt n) s) = JArr xs"
    and "\<forall>a \<in> set xs. article_ok a"
  shows "status (fst (get_news w args s)) = 200
       \<and> map_option length (response_articles (fst (get_news w args s))) = Some (length xs)"
proof -
  let ?f = "fetch_news w (JStr (args_get args ''category'' ''general''))
           (JStr (args_get args ''region'' ''in'')) (JInt n) s"
  have c: "args_get args ''category'' ''general'' \<in> set valid_categories"
    using assms(2) by (simp add: set_valid_categories)
  have l: "map_of LANG_MAP (args_get args ''language'' ''English'') \<noteq> None"
    using assms(3) by (simp add: lang_map_none)
  obtain s1 where f: "?f = (JArr xs, s1)"
    using assms(4) by (cases ?f) simp
  show ?thesis
  proof (cases "xs = []")
    case True
    with f have "\<not> py_truthy (fst ?f)" by simp
    from get_news_no_articles [OF assms(1) c l this] True show ?thesis
      by (simp add: jsonify_def response_articles_def)
  next
    case False
    obtain ps s2
      where ps: "process_articles w (JStr (args_get args ''language'' ''English'')) xs [] s1
                   = (Inr ps, s2)"
        and len: "length ps = length xs"
      using process_articles_ok
        [OF assms(5), of w "JStr (args_get args ''language'' ''English'')" "[]" s1]
      by auto
    have "fst (get_news w args s) =
            jsonify (JObj [(''region'', JStr (args_get args ''region'' ''in'')),
                           (''category'', JStr (args_get args ''category'' ''general'')),
                           (''language'', JStr (args_get args ''language'' ''English'')),
                           (''total'', JInt (int (length ps))),
                           (''articles'', JArr ps)]) 200"
      using assms(1) c l f False ps
      by (auto simp add: get_news_def get_news_try_def Let_def)
    then show ?thesis using len by (simp add: jsonify_def response_articles_def)
  qed
qed

theorem get_news_ok_length_witness:
  "parse_limit (example_world news_three chat_ok None) [(''limit'', ''3'')] = Inr 3
   \<and> fst (fetch_news (example_world news_three chat_ok None)
            (JStr ''general'') (JStr ''in'') (JInt 3) start)
       = JArr [JObj [(''title'', JStr ''One'')], JObj [(''title'', JStr ''Two'')],
               JObj [(''title'', JStr ''Three'')]]
   \<and> status (fst (get_news (example_world news_three chat_ok None) [(''limit'', ''3'')] start))
       = 200
   \<and> map_option length
        (response_articles (fst (get_news (example_world news_three chat_ok None)
           [(''limit'', ''3'')] start))) = Some 3"
proof -
  let ?w = "example_world news_three chat_ok None"
  let ?args = "[(''limit'', ''3'')]"
  let ?xs = "[JObj [(''title'', JStr ''One'')], JObj [(''title'', JStr ''Two'')],
               JObj [(''title'', JStr ''Three'')]]"
  have h1: "parse_limit ?w ?args = Inr 3"
    by (simp add: parse_limit_def example_world_def plain_int_def parse_digits_def)
  have h2: "args_get ?args ''category'' ''general'' \<in>
           {''general'', ''business'', ''technology'', ''sports'', ''entertainment'', ''science'',
            ''health''}" by (simp add: args_get_def)
  have h3: "args_get ?args ''language'' ''English'' \<in> {''English'', ''Tamil'', ''Hindi''}"
    by (simp add: args_get_def)
  have h4: "fst (fetch_news ?w (JStr (args_get ?args ''category'' ''general''))
           (JStr (args_get ?args ''region'' ''in'')) (JInt 3) start) = JArr ?xs"
    by (simp add: fetch_news_def fetch_news_try_def requests_get_json_def example_world_def
        news_three_def items_get_def args_get_def)
  have h5: "\<forall>a \<in> set ?xs. article_ok a"
    by (simp add: article_ok_def items_get_def)
  from get_news_ok_length [OF h1 h2 h3 h4 h5] h1 h4 show ?thesis
    by (simp add: args_get_def eval_nat_numeral)
qed

text \<open>
  The claim as stated fails: asked for two articles, a provider that answers with three
  gets all three listed.
\<close>

theorem get_news_ok_length_counterexample:
  "parse_limit (example_world news_three chat_ok None) [(''limit'', ''2'')] = Inr 2
   \<and> status (fst (get_news (example_world news_three chat_ok None) [(''limit'', ''2'')] start))
       = 200
   \<and> map_option length
        (response_articles (fst (get_news (example_world news_three chat_ok None)
           [(''limit'', ''2'')] start))) = Some 3
   \<and> \<not> (3::int) \<le> 2"
  by (simp add: run_simps get_news_def get_news_try_def
      example_world_def news_three_def chat_ok_def parse_limit_def args_get_def
      valid_categories_def LANG_MAP_def response_articles_def plain_int_def parse_digits_def)

section \<open>The text handed to the summarizer\<close>

lemma briefing_content_with_title:
  assumes "map_of kvs ''title'' = Some t"
  shows "briefing_content (JObj kvs) =
           news_content (JObj kvs) (items_get kvs ''title'' (JStr ''Untitled''))"
  using assms
  by (simp add: briefing_content_def news_content_def dict_get_def items_get_def Let_def)

text \<open>
  Claim C5. The two handlers do not agree on an article without a \<^verbatim>\<open>title\<close> key whose
  \<^verbatim>\<open>description\<close> and \<^verbatim>\<open>content\<close> are missing or empty: the /news handler summarizes the
  default title \<^verbatim>\<open>Untitled\<close>, the /briefing handler raises \<^verbatim>\<open>KeyError\<close> out of the handler.
\<close>

theorem briefing_content_missing_title:
  "briefing_content (JObj [(''description'', JNull), (''url'', JStr ''https://example.org/a'')])
     = Inl (PyExn ''KeyError'' (quote @ ''title'' @ quote))
   \<and> dict_get (JObj [(''description'', JNull), (''url'', JStr ''https://example.org/a'')])
        ''title'' (JStr ''Untitled'') = Inr (JStr ''Untitled'')
   \<and> news_content (JObj [(''description'', JNull), (''url'', JStr ''https://example.org/a'')])
        (JStr ''Untitled'') = Inr (JStr ''Untitled'')
   \<and> fst (daily_briefing (example_world news_untitled chat_ok None) (Inr (JObj [])) start)
     = Inl (PyExn ''KeyError'' (quote @ ''title'' @ quote))
   \<and> status (fst (get_news (example_world news_untitled chat_ok None) [] start)) = 200
   \<and> trace (snd (get_news (example_world news_untitled chat_ok None) [] start)) ! 1
     = ChatCreate (summary_prompt (example_world news_untitled chat_ok None)
         (JStr ''Untitled'') (JStr ''English''))"
  by (simp add: run_simps daily_briefing_def get_news_def get_news_try_def key_error_def
      example_world_def news_untitled_def chat_ok_def parse_limit_def args_get_def
      valid_categories_def LANG_MAP_def)

section \<open>Effects of the /briefing handler\<close>

lemma summarize_article_effects:
  "trace (snd (summarize_article w content language s)) =
     trace s @ [ChatCreate (summary_prompt w content language)]
   \<and> files (snd (summarize_article w content language s)) = files s"
  by (simp add: summarize_article_def summarize_article_try_def Let_def trace_emit files_emit
      split: sum.splits)

lemma briefing_summaries_effects:
  "\<exists>prompts. trace (snd (briefing_summaries w language xs summaries s)) =
       trace s @ map ChatCreate prompts
     \<and> files (snd (briefing_summaries w language xs summaries s)) = files s"
proof (induction xs arbitrary: summaries s)
  case Nil
  show ?case by (simp add: exI [of _ "[]"])
next
  case (Cons a xs)
  show ?case
  proof (cases "briefing_content a")
    case (Inl e)
    then show ?thesis by (simp add: exI [of _ "[]"])
  next
    case (Inr content)
    obtain summary s1 where sm: "summarize_article w content language s = (summary, s1)"
      by (cases "summarize_article w content language s")
    with summarize_article_effects [of w content language s]
    have s1: "trace s1 = trace s @ [ChatCreate (summary_prompt w content language)]"
      "files s1 = files s" by simp_all
    from Cons.IH [of "summaries @ [summary]" s1] obtain prompts where
      "trace (snd (briefing_summaries w language xs (summaries @ [summary]) s1)) =
         trace s1 @ map ChatCreate prompts"
      "files (snd (briefing_summaries w language xs (summaries @ [summary]) s1)) = files s1"
      by blast
    with s1 Inr sm show ?thesis
      by (simp add: exI [of _ "summary_prompt w content language # prompts"])
  qed
qed

lemma tts_requests_chat: "tts_requests (map ChatCreate prompts) = []"
  by (induction prompts) (simp_all add: tts_requests_def)

lemma briefing_summaries_no_tts:
  "tts_requests (trace (snd (briefing_summaries w language xs summaries s))) =
     tts_requests (trace s)"
  using briefing_summaries_effects [of w language xs summaries s]
  by (auto simp add: tts_requests_append tts_requests_chat)

lemma tts_requests_Nil: "tts_requests [] = []"
  by (simp add: tts_requests_def)

lemma tts_requests_Cons:
  "tts_requests (ev # evs) =
     (case tts_request ev of None \<Rightarrow> tts_requests evs | Some q \<Rightarrow> q # tts_requests evs)"
  by (simp add: tts_requests_def split: option.splits)

lemma generate_tts_requests:
  "tts_requests (trace (snd (generate_tts w text lang_code s))) =
     tts_requests (trace s) @ [(text, lang_code)]"
  by (simp add: generate_tts_def generate_tts_try_def Let_def trace_emit tts_requests_append
      tts_requests_Cons tts_requests_Nil split: option.splits sum.splits)

lemma generate_tts_extends:
  "\<exists>rest. trace (snd (generate_tts w text lang_code s)) = trace s @ rest"
  by (simp add: generate_tts_def generate_tts_try_def Let_def trace_emit
      split: option.splits sum.splits)

lemma lang_map_get_unknown:
  assumes "hashable language"
    and "language \<notin> {JStr ''English'', JStr ''Tamil'', JStr ''Hindi''}"
  shows "lang_map_get language = Inr ''en''"
  using assms by (cases language) (auto simp add: lang_map_get_def LANG_MAP_def)

text \<open>The handler, step by step, on a body that is a JSON object.\<close>

lemma daily_briefing_cases:
  assumes f: "fetch_news w (items_get kvs ''category'' (JStr ''general''))
              (items_get kvs ''region'' (JStr ''in'')) (items_get kvs ''limit'' (JInt 5)) s
              = (articles, s1)"
  shows "(\<not> py_truthy articles \<and>
          daily_briefing w (Inr (JObj kvs)) s =
            (Inr (jsonify (JObj [(''error'', JStr ''No articles available for briefing'')]) 400),
             s1))
       \<or> (py_truthy articles \<and>
          (\<exists>e s2 prompts. daily_briefing w (Inr (JObj kvs)) s = (Inl e, s2)
             \<and> trace s2 = trace s1 @ map ChatCreate prompts))
       \<or> (py_truthy articles \<and>
          (\<exists>r s2 prompts text code.
             lang_map_get (items_get kvs ''language'' (JStr ''English'')) = Inr code
             \<and> daily_briefing w (Inr (JObj kvs)) s = (Inr r, snd (generate_tts w text code s2))
             \<and> status r \<noteq> 400
             \<and> trace s2 = trace s1 @ map ChatCreate prompts))"
proof (cases "py_truthy articles")
  case False
  with f show ?thesis by (simp add: daily_briefing_def Let_def)
next
  case True
  show ?thesis
  proof (cases "py_iter articles")
    case (Inl e)
    with True f have "daily_briefing w (Inr (JObj kvs)) s = (Inl e, s1)"
      by (simp add: daily_briefing_def Let_def)
    then show ?thesis using True by (auto simp add: exI [of _ "[]"])
  next
    case (Inr xs)
    let ?language = "items_get kvs ''language'' (JStr ''English'')"
    obtain res s2 where b: "briefing_summaries w ?language xs [] s1 = (res, s2)"
      by (cases "briefing_summaries w ?language xs [] s1")
    with briefing_summaries_effects [of w ?language xs "[]" s1]
    obtain prompts where tr: "trace s2 = trace s1 @ map ChatCreate prompts" by auto
    show ?thesis
    proof (cases res)
      case (Inl e)
      with True f Inr b have "daily_briefing w (Inr (JObj kvs)) s = (Inl e, s2)"
        by (simp add: daily_briefing_def Let_def)
      with tr True show ?thesis by blast
    next
      case summaries: (Inr summaries)
      show ?thesis
      proof (cases "lang_map_get ?language")
        case (Inl e)
        with True f Inr b summaries have "daily_briefing w (Inr (JObj kvs)) s = (Inl e, s2)"
          by (simp add: daily_briefing_def Let_def)
        with tr True show ?thesis by blast
      next
        case code: (Inr code)
        let ?text = "JStr (briefing_intro w (items_get kvs ''category'' (JStr ''general''))
                       (items_get kvs ''region'' (JStr ''in'')) @ join_space summaries)"
        have "\<exists>r. daily_briefing w (Inr (JObj kvs)) s =
                   (Inr r, snd (generate_tts w ?text code s2))
                 \<and> status r \<noteq> 400"
          using True f Inr b summaries code
          by (cases "generate_tts w ?text code s2")
            (auto simp add: daily_briefing_def Let_def jsonify_def audio_response_def
              split: option.splits)
        with tr True code show ?thesis by blast
      qed
    qed
  qed
qed



text \<open>
  Claim C10, as amended. On a body that is a JSON object the /briefing handler checks
  neither category nor language. Whatever the category is, the run starts with the requests
  of \<open>fetch_news\<close> for that very category; the response is 400 exactly when \<open>fetch_news\<close>
  returns no articles, whatever the category and the language are. A language that is a
  string (or any other hashable value) outside English, Tamil and Hindi is resolved to the
  code \<^verbatim>\<open>en\<close>: every response other than that 400 comes with exactly one call to the speech
  synthesizer, made with \<^verbatim>\<open>en\<close>, and a run that ends otherwise makes none.
\<close>

theorem daily_briefing_no_validation:
  "(\<exists>rest. trace (snd (daily_briefing w (Inr (JObj kvs)) s)) =
       trace (snd (fetch_news w (items_get kvs ''category'' (JStr ''general''))
                (items_get kvs ''region'' (JStr ''in'')) (items_get kvs ''limit'' (JInt 5)) s))
       @ rest)
   \<and> ((\<exists>r. fst (daily_briefing w (Inr (JObj kvs)) s) = Inr r \<and> status r = 400)
        \<longleftrightarrow> \<not> py_truthy (fst (fetch_news w (items_get kvs ''category'' (JStr ''general''))
                (items_get kvs ''region'' (JStr ''in'')) (items_get kvs ''limit'' (JInt 5)) s)))
   \<and> (hashable (items_get kvs ''language'' (JStr ''English''))
        \<and> items_get kvs ''language'' (JStr ''English'')
            \<notin> {JStr ''English'', JStr ''Tamil'', JStr ''Hindi''}
        \<longrightarrow> lang_map_get (items_get kvs ''language'' (JStr ''English'')) = Inr ''en''
            \<and> (\<exists>speech. tts_requests (trace (snd (daily_briefing w (Inr (JObj kvs)) s))) =
                   tts_requests (trace s) @
                   (if \<exists>r. fst (daily_briefing w (Inr (JObj kvs)) s) = Inr r \<and> status r \<noteq> 400
                    then [(speech, ''en'')] else [])))"
proof -
  let ?f = "fetch_news w (items_get kvs ''category'' (JStr ''general''))
              (items_get kvs ''region'' (JStr ''in'')) (items_get kvs ''limit'' (JInt 5)) s"
  let ?r = "daily_briefing w (Inr (JObj kvs)) s"
  let ?language = "items_get kvs ''language'' (JStr ''English'')"
  obtain articles s1 where f: "?f = (articles, s1)" by (cases ?f)
  have s1_tts: "tts_requests (trace s1) = tts_requests (trace s)"
    using fetch_news_no_tts [of w _ _ _ s] f by (metis snd_conv)
  note steps = daily_briefing_cases [OF f]
  have prefix: "\<exists>rest. trace (snd ?r) = trace s1 @ rest"
    using steps
  proof (elim disjE conjE exE)
    fix r s2 prompts speech code
    assume r: "?r = (Inr r, snd (generate_tts w speech code s2))"
      and tr: "trace s2 = trace s1 @ map ChatCreate prompts"
    from generate_tts_extends [of w speech code s2] obtain rest
      where "trace (snd (generate_tts w speech code s2)) = trace s2 @ rest" by blast
    with r tr show ?thesis by simp
  qed auto
  have bad: "(\<exists>r. fst ?r = Inr r \<and> status r = 400) \<longleftrightarrow> \<not> py_truthy articles"
    using steps by (auto simp add: jsonify_def)
  have lang: "lang_map_get ?language = Inr ''en''
            \<and> (\<exists>speech. tts_requests (trace (snd ?r)) =
                   tts_requests (trace s) @
                   (if \<exists>r. fst ?r = Inr r \<and> status r \<noteq> 400 then [(speech, ''en'')] else []))"
    if h: "hashable ?language"
      and n: "?language \<notin> {JStr ''English'', JStr ''Tamil'', JStr ''Hindi''}"
  proof -
    have en: "lang_map_get ?language = Inr ''en''"
      by (rule lang_map_get_unknown [OF h n])
    from steps have "\<exists>speech. tts_requests (trace (snd ?r)) =
                   tts_requests (trace s) @
                   (if \<exists>r. fst ?r = Inr r \<and> status r \<noteq> 400 then [(speech, ''en'')] else [])"
    proof (elim disjE conjE exE)
      assume "?r = (Inr (jsonify (JObj [(''error'',
                 JStr ''No articles available for briefing'')]) 400), s1)"
      with s1_tts show ?thesis by (simp add: jsonify_def)
    next
      fix e s2 prompts
      assume "?r = (Inl e, s2)" "trace s2 = trace s1 @ map ChatCreate prompts"
      with s1_tts show ?thesis by (simp add: tts_requests_append tts_requests_chat)
    next
      fix r s2 prompts speech code
      assume c: "lang_map_get ?language = Inr code"
        and r: "?r = (Inr r, snd (generate_tts w speech code s2))"
        and st: "status r \<noteq> 400"
        and tr: "trace s2 = trace s1 @ map ChatCreate prompts"
      from c en have "code = ''en''" by simp
      with r st tr s1_tts generate_tts_requests [of w speech code s2]
      show ?thesis by (auto simp add: tts_requests_append tts_requests_chat)
    qed
    with en show ?thesis by simp
  qed
  from prefix bad lang f show ?thesis by simp
qed

lemmas briefing_simps = daily_briefing_def briefing_intro_def generate_tts_def
  generate_tts_try_def lang_map_get_def LANG_MAP_def audio_response_def py_str_def quote_def
  tts_requests_def

theorem daily_briefing_no_validation_witness:
  "items_get [(''category'', JStr ''astrology''), (''language'', JStr ''French'')]
      ''category'' (JStr ''general'') = JStr ''astrology''
   \<and> ''astrology'' \<notin> set valid_categories
   \<and> hashable (items_get [(''category'', JStr ''astrology''), (''language'', JStr ''French'')]
        ''language'' (JStr ''English''))
   \<and> items_get [(''category'', JStr ''astrology''), (''language'', JStr ''French'')]
        ''language'' (JStr ''English'') \<notin> {JStr ''English'', JStr ''Tamil'', JStr ''Hindi''}
   \<and> hd (trace (snd (daily_briefing (example_world news_one chat_ok None)
        (Inr (JObj [(''category'', JStr ''astrology''), (''language'', JStr ''French'')])) start)))
       = HttpGet ''https://newsapi.org/v2/top-headlines?country=in&category=astrology&pageSize=5&apiKey=809a78470dbf4902bcbba81cae58b192''
   \<and> map_sum id status (fst (daily_briefing (example_world news_one chat_ok None)
        (Inr (JObj [(''category'', JStr ''astrology''), (''language'', JStr ''French'')])) start))
       = Inr 200
   \<and> tts_requests (trace (snd (daily_briefing (example_world news_one chat_ok None)
        (Inr (JObj [(''category'', JStr ''astrology''), (''language'', JStr ''French'')])) start)))
       = [(JStr (''Good morning! Here are today'' @ [CHR 0x27] @
                 ''s top astrology news from in. A short summary.''), ''en'')]"
  using daily_briefing_no_validation [of "example_world news_one chat_ok None"
      "[(''category'', JStr ''astrology''), (''language'', JStr ''French'')]" start]
  by (simp add: run_simps briefing_simps example_world_def news_one_def chat_ok_def
      valid_categories_def top_headlines_url_def NEWS_API_KEY_def str_of_int_def)

text \<open>
  The claim as stated fails: with the body \<^verbatim>\<open>{"language": ["fr"]}\<close> the language is outside
  the three names and is not resolved to \<^verbatim>\<open>en\<close>: \<^verbatim>\<open>LANG_MAP.get\<close> cannot hash a list,
  \<^verbatim>\<open>TypeError\<close> leaves the handler and the speech synthesizer is never called.
\<close>

theorem daily_briefing_no_validation_counterexample:
  "items_get [(''language'', JArr [JStr ''fr''])] ''language'' (JStr ''English'')
     = JArr [JStr ''fr'']
   \<and> JArr [JStr ''fr''] \<notin> {JStr ''English'', JStr ''Tamil'', JStr ''Hindi''}
   \<and> fst (daily_briefing (example_world news_one chat_ok None)
          (Inr (JObj [(''language'', JArr [JStr ''fr''])])) start)
       = Inl (PyExn ''TypeError'' (''unhashable type: '' @ [CHR 0x27] @ ''list'' @ [CHR 0x27]))
   \<and> tts_requests (trace (snd (daily_briefing (example_world news_one chat_ok None)
          (Inr (JObj [(''language'', JArr [JStr ''fr''])])) start))) = []"
  by (simp add: run_simps briefing_simps example_world_def news_one_def chat_ok_def
      unhashable_def)

section \<open>The temporary audio file\<close>

lemma generate_tts_file:
  assumes "generate_tts w speech lang_code s = (Some name, s')"
  shows "name \<in> files s'"
  using assms
  by (auto simp add: generate_tts_def generate_tts_try_def Let_def emit_def
      split: option.splits sum.splits)

text \<open>
  A 200 response of either handler streams a file that is on disk when the handler returns,
  and registers exactly the removal of that file with \<^verbatim>\<open>call_on_close\<close>.
\<close>

lemma get_tts_audio:
  assumes "get_tts w get_json s = (Inr r, s')" and "status r = 200"
  shows "\<exists>name. on_close r = [name] \<and> body r = FileBody name ''audio/mp3''
           \<and> name \<in> files s'"
proof -
  from assms obtain kvs where j: "get_json = Inr (JObj kvs)"
    by (auto simp add: get_tts_def split: sum.splits json.splits)
  let ?t = "items_get kvs ''text'' JNull"
  from assms j have t: "py_truthy ?t"
    by (auto simp add: get_tts_def Let_def jsonify_def split: if_splits)
  from assms j t obtain code
    where c: "lang_map_get (items_get kvs ''language'' (JStr ''English'')) = Inr code"
    by (auto simp add: get_tts_def Let_def split: sum.splits)
  obtain res s1 where g: "generate_tts w ?t code s = (res, s1)"
    by (cases "generate_tts w ?t code s")
  from assms j t c g obtain name where "res = Some name" "name \<noteq> []"
    "r = audio_response name [(''X-Audio-File'', basename name)]" "s' = s1"
    by (cases res) (auto simp add: get_tts_def Let_def jsonify_def split: if_splits)
  with g generate_tts_file [of w ?t code s name s1] show ?thesis
    by (simp add: audio_response_def)
qed

lemma daily_briefing_audio:
  assumes "daily_briefing w get_json s = (Inr r, s')" and "status r = 200"
  shows "\<exists>name. on_close r = [name] \<and> body r = FileBody name ''audio/mp3''
           \<and> name \<in> files s'"
proof -
  from assms obtain kvs where j: "get_json = Inr (JObj kvs)"
    by (auto simp add: daily_briefing_def split: sum.splits json.splits)
  let ?f = "fetch_news w (items_get kvs ''category'' (JStr ''general''))
              (items_get kvs ''region'' (JStr ''in'')) (items_get kvs ''limit'' (JInt 5)) s"
  let ?language = "items_get kvs ''language'' (JStr ''English'')"
  obtain articles s1 where f: "?f = (articles, s1)" by (cases ?f)
  from assms j f have t: "py_truthy articles"
    by (auto simp add: daily_briefing_def Let_def jsonify_def split: if_splits)
  from assms j f t obtain xs where xs: "py_iter articles = Inr xs"
    by (cases "py_iter articles") (auto simp add: daily_briefing_def Let_def)
  obtain res s2 where b: "briefing_summaries w ?language xs [] s1 = (res, s2)"
    by (cases "briefing_summaries w ?language xs [] s1")
  from assms j f t xs b obtain summaries where sm: "res = Inr summaries"
    by (cases res) (auto simp add: daily_briefing_def Let_def)
  from assms j f t xs b sm obtain code where c: "lang_map_get ?language = Inr code"
    by (cases "lang_map_get ?language") (auto simp add: daily_briefing_def Let_def)
  let ?speech = "JStr (briefing_intro w (items_get kvs ''category'' (JStr ''general''))
                       (items_get kvs ''region'' (JStr ''in'')) @ join_space summaries)"
  obtain out s3 where g: "generate_tts w ?speech code s2 = (out, s3)"
    by (cases "generate_tts w ?speech code s2")
  from assms j f t xs b sm c g obtain name where "out = Some name"
    "r = audio_response name [(''X-Audio-Type'', ''daily-briefing'')]" "s' = s3"
    by (cases out) (auto simp add: daily_briefing_def Let_def jsonify_def split: if_splits)
  with g generate_tts_file [of w ?speech code s2 name s3] show ?thesis
    by (simp add: audio_response_def)
qed

text \<open>
  If \<^verbatim>\<open>Response.close()\<close> is called on such a response, the registered function removes the
  file; when \<^verbatim>\<open>os.remove\<close> fails, the failure is swallowed and the disk is left as it was.
  Until then the file stays.
\<close>

lemma close_response_removes:
  assumes "on_close r = [name]" and "name \<in> files s"
    and "os_remove_error w (now s) name = None"
  shows "name \<notin> files (close_response w r s)"
    and "files (close_response w r s) = files s - {name}"
  using assms by (simp_all add: close_response_def cleanup_def os_remove_def emit_def)

lemma close_response_swallows:
  assumes "on_close r = [name]" and "os_remove_error w (now s) name = Some e"
  shows "files (close_response w r s) = files s"
  using assms by (simp add: close_response_def cleanup_def os_remove_def emit_def)

text \<open>
  Claim C9. After a response of /tts or /briefing has been sent, the temporary audio file
  the request created is no longer on disk. The code does not achieve this. The 500
  responses that follow a failure of \<^verbatim>\<open>tts.save\<close> register no cleanup at all:
  \<^verbatim>\<open>NamedTemporaryFile(delete=False)\<close> has created the file by then, \<open>generate_tts\<close> returns
  \<^verbatim>\<open>None\<close> without removing it, and the file is still there even when the response object
  is closed. (The 200 responses only register the removal with \<^verbatim>\<open>call_on_close\<close>; it takes
  place if and when the server closes the response object.)
\<close>

theorem get_tts_leaves_file:
  "fst (get_tts (example_world news_down chat_ok (Some timeout_error))
          (Inr (JObj [(''text'', JStr ''Hello'')])) start)
     = Inr \<lparr>status = 500, body = JsonBody (JObj [(''error'', JStr ''TTS generation failed'')]),
            headers = [], on_close = []\<rparr>
   \<and> files start = {}
   \<and> files (close_response (example_world news_down chat_ok (Some timeout_error))
        \<lparr>status = 500, body = JsonBody (JObj [(''error'', JStr ''TTS generation failed'')]),
         headers = [], on_close = []\<rparr>
        (snd (get_tts (example_world news_down chat_ok (Some timeout_error))
               (Inr (JObj [(''text'', JStr ''Hello'')])) start)))
     = {''/tmp/tmpk3v9x2qa.mp3''}
   \<and> fst (daily_briefing (example_world news_one chat_ok (Some timeout_error))
          (Inr (JObj [])) start)
     = Inr \<lparr>status = 500,
            body = JsonBody (JObj [(''error'', JStr ''Failed to generate audio briefing'')]),
            headers = [], on_close = []\<rparr>
   \<and> files (close_response (example_world news_one chat_ok (Some timeout_error))
        \<lparr>status = 500,
         body = JsonBody (JObj [(''error'', JStr ''Failed to generate audio briefing'')]),
         headers = [], on_close = []\<rparr>
        (snd (daily_briefing (example_world news_one chat_ok (Some timeout_error))
               (Inr (JObj [])) start)))
     = {''/tmp/tmpk3v9x2qa.mp3''}"
  by (simp add: run_simps briefing_simps get_tts_def close_response_def example_world_def
      news_one_def chat_ok_def)

section \<open>A provider without articles\<close>

lemma process_article_state:
  "snd (process_article w language a s) = s
   \<or> (\<exists>content. snd (process_article w language a s) =
                   snd (summarize_article w content language s))"
  by (auto simp add: process_article_def split: sum.splits prod.splits) (metis snd_conv)+

lemma process_article_extends:
  "\<exists>rest. trace (snd (process_article w language a s)) = trace s @ rest"
  using process_article_state [of w language a s] summarize_article_effects [of w _ language s]
  by (metis append_Nil2)

lemma process_articles_extends:
  "\<exists>rest. trace (snd (process_articles w language xs processed s)) = trace s @ rest"
proof (induction xs arbitrary: processed s)
  case Nil
  show ?case by simp
next
  case (Cons a xs)
  obtain res s1 where p: "process_article w language a s = (res, s1)"
    by (cases "process_article w language a s")
  with process_article_extends [of w language a s] obtain r1 where r1: "trace s1 = trace s @ r1"
    by auto
  show ?case
  proof (cases res)
    case (Inl e)
    with p r1 show ?thesis by simp
  next
    case (Inr q)
    from Cons.IH [of "processed @ [q]" s1] obtain r2 where
      "trace (snd (process_articles w language xs (processed @ [q]) s1)) = trace s1 @ r2"
      by blast
    with p r1 Inr show ?thesis by simp
  qed
qed

lemma get_news_extends_fetch:
  assumes "parse_limit w args = Inr n"
    and "args_get args ''category'' ''general'' \<in> set valid_categories"
    and "map_of LANG_MAP (args_get args ''language'' ''English'') \<noteq> None"
  shows "\<exists>rest. trace (snd (get_news w args s)) =
           trace (snd (fetch_news w (JStr (args_get args ''category'' ''general''))
                    (JStr (args_get args ''region'' ''in'')) (JInt n) s)) @ rest"
proof -
  let ?f = "fetch_news w (JStr (args_get args ''category'' ''general''))
                    (JStr (args_get args ''region'' ''in'')) (JInt n) s"
  obtain articles s1 where f: "?f = (articles, s1)" by (cases ?f)
  show ?thesis
  proof (cases "py_truthy articles")
    case False
    with assms f show ?thesis by (auto simp add: get_news_def get_news_try_def Let_def)
  next
    case True
    show ?thesis
    proof (cases "py_iter articles")
      case (Inl e)
      with True assms f show ?thesis by (auto simp add: get_news_def get_news_try_def Let_def)
    next
      case (Inr xs)
      let ?p = "process_articles w (JStr (args_get args ''language'' ''English'')) xs [] s1"
      obtain res s2 where p: "?p = (res, s2)" by (cases ?p)
      with process_articles_extends [of w _ xs "[]" s1] obtain rest
        where "trace s2 = trace s1 @ rest" by (metis snd_conv)
      with True assms f Inr p show ?thesis
        by (cases res) (auto simp add: get_news_def get_news_try_def Let_def)
    qed
  qed
qed

lemma get_news_bad_limit:
  assumes "parse_limit w args = Inl e"
  shows "snd (get_news w args s) = s"
  using assms by (simp add: get_news_def get_news_try_def)

lemma fetch_news_first_request:
  "\<exists>rest. trace (snd (fetch_news w c r l s)) =
      trace s @ HttpGet (top_headlines_url w c r l) # rest"
  by (auto simp add: fetch_news_def fetch_news_try_def fetch_news_fallback_def
      requests_get_json_def trace_emit split: prod.splits sum.splits json.splits)

lemma fetch_news_fallback_run:
  assumes "http_get_json w (now s) (top_headlines_url w c r l) = Inr (JObj kvs)"
    and "\<not> py_truthy (items_get kvs ''articles'' JNull)"
  shows "trace (snd (fetch_news w c r l s)) =
           trace s @ [HttpGet (top_headlines_url w c r l), HttpGet (everything_url w c l)]"
    and "fst (fetch_news w c r l s) =
           (case http_get_json w (Suc (now s)) (everything_url w c l) of
              Inr (JObj kvs2) \<Rightarrow> items_get kvs2 ''articles'' (JArr [])
            | _ \<Rightarrow> JArr [])"
  using assms
  by (auto simp add: fetch_news_def fetch_news_try_def fetch_news_fallback_def
      requests_get_json_def now_emit trace_emit dict_get_def
      split: prod.splits sum.splits json.splits)

text \<open>
  Claim C6. Take a /news request with a valid category and a valid language whose run asks
  the provider the primary and then the fallback query. When the provider answers both with
  an object whose \<^verbatim>\<open>articles\<close> entry is empty or absent, the response is 200 with the message
  \<^verbatim>\<open>No news found\<close>, an empty \<^verbatim>\<open>articles\<close> array and no \<^verbatim>\<open>error\<close> field.
\<close>

theorem get_news_nothing_found:
  assumes "args_get args ''category'' ''general'' \<in>
           {''general'', ''business'', ''technology'', ''sports'', ''entertainment'', ''science'',
            ''health''}"
    and "args_get args ''language'' ''English'' \<in> {''English'', ''Tamil'', ''Hindi''}"
    and "trace (snd (get_news w args s)) = trace s @ HttpGet primary # HttpGet fallback # rest"
    and "http_get_json w (now s) primary = Inr (JObj kvs1)"
    and "\<not> py_truthy (items_get kvs1 ''articles'' JNull)"
    and "http_get_json w (Suc (now s)) fallback = Inr (JObj kvs2)"
    and "\<not> py_truthy (items_get kvs2 ''articles'' (JArr []))"
  shows "fst (get_news w args s) =
           \<lparr>status = 200,
            body = JsonBody (JObj [(''message'', JStr ''No news found''), (''articles'', JArr [])]),
            headers = [], on_close = []\<rparr>"
proof -
  let ?c = "JStr (args_get args ''category'' ''general'')"
  let ?r = "JStr (args_get args ''region'' ''in'')"
  have c: "args_get args ''category'' ''general'' \<in> set valid_categories"
    using assms(1) by (simp add: set_valid_categories)
  have l: "map_of LANG_MAP (args_get args ''language'' ''English'') \<noteq> None"
    using assms(2) by (simp add: lang_map_none)
  obtain n where n: "parse_limit w args = Inr n"
  proof (cases "parse_limit w args")
    case (Inl e)
    from get_news_bad_limit [OF Inl, of s] assms(3) show ?thesis by simp
  next
    case (Inr n)
    with that show ?thesis .
  qed
  let ?l = "JInt n"
  from get_news_extends_fetch [OF n c l, of s] obtain r1 where
    g: "trace (snd (get_news w args s)) = trace (snd (fetch_news w ?c ?r ?l s)) @ r1" by blast
  from fetch_news_first_request [of w ?c ?r ?l s] obtain r2 where
    "trace (snd (fetch_news w ?c ?r ?l s)) = trace s @ HttpGet (top_headlines_url w ?c ?r ?l) # r2"
    by blast
  with g assms(3) have p: "primary = top_headlines_url w ?c ?r ?l" by simp
  note run = fetch_news_fallback_run [OF assms(4) [unfolded p] assms(5)]
  from run(1) g assms(3) have fb: "fallback = everything_url w ?c ?l" by simp
  from run(2) assms(6) assms(7) fb have "\<not> py_truthy (fst (fetch_news w ?c ?r ?l s))"
    by simp
  from get_news_no_articles [OF n c l this] show ?thesis by (simp add: jsonify_def)
qed

theorem get_news_nothing_found_witness:
  "trace (snd (get_news (example_world news_none chat_ok None)
       [(''category'', ''science''), (''language'', ''Hindi'')] start)) =
     trace start @
     HttpGet ''https://newsapi.org/v2/top-headlines?country=in&category=science&pageSize=5&apiKey=809a78470dbf4902bcbba81cae58b192''
     # HttpGet ''https://newsapi.org/v2/everything?q=science news&language=en&pageSize=5&apiKey=809a78470dbf4902bcbba81cae58b192''
     # []
   \<and> fst (get_news (example_world news_none chat_ok None)
            [(''category'', ''science''), (''language'', ''Hindi'')] start) =
       \<lparr>status = 200,
        body = JsonBody (JObj [(''message'', JStr ''No news found''), (''articles'', JArr [])]),
        headers = [], on_close = []\<rparr>"
proof -
  let ?w = "example_world news_none chat_ok None"
  let ?args = "[(''category'', ''science''), (''language'', ''Hindi'')]"
  let ?kvs = "[(''status'', JStr ''ok''), (''totalResults'', JInt 0), (''articles'', JArr [])]"
  let ?u1 = "''https://newsapi.org/v2/top-headlines?country=in&category=science&pageSize=5&apiKey=809a78470dbf4902bcbba81cae58b192''"
  let ?u2 = "''https://newsapi.org/v2/everything?q=science news&language=en&pageSize=5&apiKey=809a78470dbf4902bcbba81cae58b192''"
  have h1: "args_get ?args ''category'' ''general'' \<in>
           {''general'', ''business'', ''technology'', ''sports'', ''entertainment'', ''science'',
            ''health''}" by (simp add: args_get_def)
  have h2: "args_get ?args ''language'' ''English'' \<in> {''English'', ''Tamil'', ''Hindi''}"
    by (simp add: args_get_def)
  have h3: "trace (snd (get_news ?w ?args start)) = trace start @ HttpGet ?u1 # HttpGet ?u2 # []"
    by (simp add: run_simps get_news_def get_news_try_def parse_limit_def args_get_def
        valid_categories_def LANG_MAP_def example_world_def news_none_def
        top_headlines_url_def everything_url_def fallback_query_def py_str_def NEWS_API_KEY_def
        str_of_int_def)
  have h4: "http_get_json ?w (now start) ?u1 = Inr (JObj ?kvs)"
    by (simp add: example_world_def news_none_def)
  have h5: "\<not> py_truthy (items_get ?kvs ''articles'' JNull)" by (simp add: items_get_def)
  have h6: "http_get_json ?w (Suc (now start)) ?u2 = Inr (JObj ?kvs)"
    by (simp add: example_world_def news_none_def)
  have h7: "\<not> py_truthy (items_get ?kvs ''articles'' (JArr []))" by (simp add: items_get_def)
  from get_news_nothing_found [OF h1 h2 h3 h4 h5 h6 h7] h3 show ?thesis by simp
qed

end
